theory Spec2Isabelle
  imports
    Complex_Main
    "HOL-Library.Word"
    "HOL-Library.Char_ord"
    "HOL-Library.List_Lexorder"
    "HOL-Library.Multiset"
begin

section \<open>bankacct: command-line options, accounts and the action engine\<close>

text \<open>
  A shallow embedding of \<^verbatim>\<open>bankacct.h\<close> and \<^verbatim>\<open>bankacct.cpp\<close>.
  A C string (\<^verbatim>\<open>char*\<close>, \<^verbatim>\<open>char[N]\<close>) is a \<^typ>\<open>string\<close> without its
  terminating NUL, \<^verbatim>\<open>nullptr\<close> is \<^term>\<open>None\<close>, \<^verbatim>\<open>unsigned int\<close> is a
  32-bit word, and a \<^verbatim>\<open>double\<close> is idealised as a \<^typ>\<open>real\<close>.
\<close>

subsection \<open>Constants of bankacct.h\<close>

definition SLASH :: char where "SLASH = CHR ''/''"

definition O_HELP :: char where "O_HELP = CHR ''?''"
definition O_DATA :: char where "O_DATA = CHR ''D''"
definition O_CHANGE_AREA :: char where "O_CHANGE_AREA = CHR ''A''"
definition O_CHANGE_F :: char where "O_CHANGE_F = CHR ''F''"
definition O_CHANGE_PHONE :: char where "O_CHANGE_PHONE = CHR ''H''"
definition O_CHANGE_L :: char where "O_CHANGE_L = CHR ''L''"
definition O_CHANGE_M :: char where "O_CHANGE_M = CHR ''M''"
definition O_CHANGE_SSN :: char where "O_CHANGE_SSN = CHR ''S''"
definition O_TRANS :: char where "O_TRANS = CHR ''T''"
definition O_NEWPASS :: char where "O_NEWPASS = CHR ''W''"
definition O_INFO :: char where "O_INFO = CHR ''I''"
definition O_REPORT :: char where "O_REPORT = CHR ''R''"
definition O_NUM :: char where "O_NUM = CHR ''N''"
definition O_PASS :: char where "O_PASS = CHR ''P''"

lemmas option_codes =
  SLASH_def O_HELP_def O_DATA_def O_CHANGE_AREA_def O_CHANGE_F_def O_CHANGE_PHONE_def
  O_CHANGE_L_def O_CHANGE_M_def O_CHANGE_SSN_def O_TRANS_def O_NEWPASS_def O_INFO_def
  O_REPORT_def O_NUM_def O_PASS_def

definition FIRST_NAME_LENGTH :: nat where "FIRST_NAME_LENGTH = 50"
definition LAST_NAME_LENGTH :: nat where "LAST_NAME_LENGTH = 50"
definition ACC_NUM_LENGTH :: nat where "ACC_NUM_LENGTH = 5"
definition PASS_LENGTH :: nat where "PASS_LENGTH = 6"

definition ERR_NO_DB :: nat where "ERR_NO_DB = 1"
definition ERR_DB_NOT_FOUND :: nat where "ERR_DB_NOT_FOUND = 2"
definition ERR_NO_ACCOUNT :: nat where "ERR_NO_ACCOUNT = 3"
definition ERR_NO_INFO :: nat where "ERR_NO_INFO = 4"
definition ERR_REPORT_FILE_ERR :: nat where "ERR_REPORT_FILE_ERR = 5"
definition ERR_NO_TRANSFER_ACCOUNT :: nat where "ERR_NO_TRANSFER_ACCOUNT = 6"
definition ERR_TOO_MUCH_TRANSFER :: nat where "ERR_TOO_MUCH_TRANSFER = 7"


subsection \<open>The field patterns and the C library calls they are used with\<close>

text \<open>
  The patterns are compiled by \<^verbatim>\<open>std::regex\<close> with its default (ECMAScript) grammar and
  applied with \<^verbatim>\<open>regex_match\<close>, which succeeds only when the whole string matches; the
  anchors \<^verbatim>\<open>^\<close> and \<^verbatim>\<open>$\<close> add nothing to that. Every pattern of the header is one
  character class under one quantifier, so a pattern is a class with a repetition.

  A class is \<^verbatim>\<open>\d\<close> or a bracket expression. In the ECMAScript grammar a named class is
  written inside a bracket expression, \<^verbatim>\<open>[[:alpha:]]\<close>. The header writes
  \<^verbatim>\<open>[:alpha:]\<close>: a bracket expression whose members are the seven characters between the
  brackets, \<^verbatim>\<open>: a l p h a :\<close>.
\<close>

datatype char_class =
    Digit
  | Bracket "(char \<times> char) list"

datatype regex =
    Star char_class
  | Times char_class nat
  | Once char_class

definition isdigit :: "char \<Rightarrow> bool" where
  "isdigit c \<longleftrightarrow> CHR ''0'' \<le> c \<and> c \<le> CHR ''9''"

definition isalpha :: "char \<Rightarrow> bool" where
  "isalpha c \<longleftrightarrow> (CHR ''A'' \<le> c \<and> c \<le> CHR ''Z'') \<or> (CHR ''a'' \<le> c \<and> c \<le> CHR ''z'')"

definition isspace :: "char \<Rightarrow> bool" where
  "isspace c \<longleftrightarrow> c = CHR '' '' \<or> (CHR 0x09 \<le> c \<and> c \<le> CHR 0x0D)"

fun in_class :: "char_class \<Rightarrow> char \<Rightarrow> bool" where
  "in_class Digit c = isdigit c"
| "in_class (Bracket rs) c = list_ex (\<lambda>(lo, hi). lo \<le> c \<and> c \<le> hi) rs"

fun regex_match :: "string \<Rightarrow> regex \<Rightarrow> bool" where
  "regex_match s (Star k) = list_all (in_class k) s"
| "regex_match s (Times k n) = (length s = n \<and> list_all (in_class k) s)"
| "regex_match s (Once k) = (length s = 1 \<and> list_all (in_class k) s)"

definition single :: "char \<Rightarrow> char \<times> char" where
  "single c = (c, c)"

definition R_AREA :: regex where "R_AREA = Times Digit 3"
definition R_NAME :: regex where "R_NAME = Star (Bracket (map single '':alpha:''))"
definition R_MIDDLE :: regex where "R_MIDDLE = Once (Bracket (map single '':alpha:''))"
definition R_PHONE :: regex where "R_PHONE = Times Digit 7"
definition R_SSN :: regex where "R_SSN = Times Digit 9"
definition R_PASS :: regex where
  "R_PASS = Times (Bracket [(CHR ''A'', CHR ''Z''), (CHR ''0'', CHR ''9'')]) 6"

lemmas patterns = R_AREA_def R_NAME_def R_MIDDLE_def R_PHONE_def R_SSN_def R_PASS_def

text \<open>
  \<^verbatim>\<open>atoi\<close> skips white space, takes an optional sign and the longest run of decimal digits
  after it, and gives 0 when there is none. The model returns the mathematical integer;
  the C function is defined only while that fits an \<^verbatim>\<open>int\<close>, which lemma
  \<open>atoi_Times_Digit\<close> below shows for every string the engine converts.
\<close>

definition digit_val :: "char \<Rightarrow> nat" where
  "digit_val c = of_char c - of_char CHR ''0''"

fun atoi_digits :: "nat \<Rightarrow> string \<Rightarrow> nat" where
  "atoi_digits n [] = n"
| "atoi_digits n (c # cs) = (if isdigit c then atoi_digits (10 * n + digit_val c) cs else n)"

definition atoi :: "string \<Rightarrow> int" where
  "atoi s =
     (case dropWhile isspace s of
        [] \<Rightarrow> 0
      | c # cs \<Rightarrow>
          if c = CHR ''-'' then - int (atoi_digits 0 cs)
          else if c = CHR ''+'' then int (atoi_digits 0 cs)
          else int (atoi_digits 0 (c # cs)))"

subsection \<open>Accounts\<close>

text \<open>
  \<^verbatim>\<open>struct Account\<close>. The field \<^verbatim>\<open>last\<close> is \<open>last_name\<close> here, and \<^verbatim>\<open>first\<close>
  is \<open>first_name\<close> beside it.
\<close>

record Account =
  first_name :: string
  last_name :: string
  middle :: char
  social :: "32 word"
  area :: "32 word"
  phone :: "32 word"
  balance :: real
  number :: string
  password :: string
  nameLength :: "32 word"

text \<open>
  An \<^verbatim>\<open>Account*\<close> is \<^verbatim>\<open>nullptr\<close> or the position of an element of the vector
  \<^verbatim>\<open>people\<close>; a position past the end stands for a pointer to no account.
\<close>

type_synonym ptr = "nat option"

subsection \<open>The option map: sortArgs and yankArg\<close>

text \<open>
  \<^verbatim>\<open>map<char, vector<char*>>\<close> iterates in key order, so it is an association list kept
  sorted by key, one entry per key.
\<close>

type_synonym args = "(char \<times> string list) list"

fun find_arg :: "args \<Rightarrow> char \<Rightarrow> string list option" where
  "find_arg [] c = None"
| "find_arg ((k, vs) # m) c = (if k = c then Some vs else find_arg m c)"

fun push_arg :: "char \<Rightarrow> string \<Rightarrow> args \<Rightarrow> args" where
  "push_arg c v [] = [(c, [v])]"
| "push_arg c v ((k, vs) # m) =
     (if c = k then (k, vs @ [v]) # m
      else if c < k then (c, [v]) # (k, vs) # m
      else (k, vs) # push_arg c v m)"

text \<open>One round of the loop of \<^verbatim>\<open>sortArgs\<close>, which starts at \<^verbatim>\<open>argv[0]\<close>.\<close>

fun sortArg :: "args \<Rightarrow> string \<Rightarrow> args" where
  "sortArg m (c0 # c1 # v) = (if c0 \<noteq> SLASH then m else push_arg c1 v m)"
| "sortArg m _ = m"

definition sortArgs :: "string list \<Rightarrow> args" where
  "sortArgs argv = foldl sortArg [] argv"

fun yankArg :: "args \<Rightarrow> char \<Rightarrow> string option \<times> args" where
  "yankArg [] c = (None, [])"
| "yankArg ((k, vs) # m) c =
     (if k = c then
        (case vs of [] \<Rightarrow> (None, (k, vs) # m) | re # vec \<Rightarrow> (Some re, (k, vec) # m))
      else (case yankArg m c of (re, m') \<Rightarrow> (re, (k, vs) # m')))"

subsection \<open>findAccount\<close>

fun find_from :: "nat \<Rightarrow> Account list \<Rightarrow> string \<Rightarrow> string \<Rightarrow> ptr" where
  "find_from i [] n p = None"
| "find_from i (a # as) n p =
     (if number a = n \<and> password a = p then Some i else find_from (Suc i) as n p)"

fun findAccount :: "Account list \<Rightarrow> string option \<Rightarrow> string option \<Rightarrow> ptr" where
  "findAccount people (Some n) (Some p) = find_from 0 people n p"
| "findAccount people _ _ = None"

subsection \<open>Text output: integers and doubles\<close>

definition endl :: string where "endl = [CHR 0x0A]"

definition digit_char :: "nat \<Rightarrow> char" where
  "digit_char d = ''0123456789'' ! (d mod 10)"

function show_nat :: "nat \<Rightarrow> string" where
  "show_nat n = (if n < 10 then [digit_char n] else show_nat (n div 10) @ [digit_char (n mod 10)])"
  by pat_completeness auto
termination
  by (relation "measure id") auto

declare show_nat.simps [simp del]

definition show_uint :: "32 word \<Rightarrow> string" where
  "show_uint w = show_nat (unat w)"

text \<open>
  A \<^verbatim>\<open>double\<close> is idealised as the real number it approximates, and its renderings are
  defined where the idealisation is exact. \<open>show_double\<close> is the stream's default format
  (six significant digits, trailing zeros dropped), defined on the numbers with at most six
  significant digits that the default format writes without an exponent. \<open>show_fixed2\<close> is
  \<^verbatim>\<open>fixed << setprecision(2)\<close>, defined on whole numbers of hundredths. Elsewhere
  both give \<^term>\<open>None\<close>: the rendering depends on binary rounding, which is not modelled.
\<close>

text \<open>The least number of decimal places, nine at most, that write \<open>x\<close> exactly.\<close>

definition places :: "real \<Rightarrow> nat option" where
  "places x = find (\<lambda>k. x * 10 ^ k = of_int \<lfloor>x * 10 ^ k\<rfloor>) [0, 1, 2, 3, 4, 5, 6, 7, 8, 9]"

definition zero_pad :: "nat \<Rightarrow> string \<Rightarrow> string" where
  "zero_pad k s = replicate (k - length s) CHR ''0'' @ s"

definition show_decimal :: "bool \<Rightarrow> nat \<Rightarrow> nat \<Rightarrow> string" where
  "show_decimal neg n k =
     (if neg then ''-'' else []) @ show_nat (n div 10 ^ k) @
     (if k = 0 then [] else ''.'' @ zero_pad k (show_nat (n mod 10 ^ k)))"

definition show_double :: "real \<Rightarrow> string option" where
  "show_double x =
     (if x = 0 then Some ''0''
      else case places \<bar>x\<bar> of
        None \<Rightarrow> None
      | Some k \<Rightarrow>
          (let n = nat \<lfloor>\<bar>x\<bar> * 10 ^ k\<rfloor> in
           if n < 10 ^ 6 \<and> 1 / 10 ^ 4 \<le> \<bar>x\<bar> then Some (show_decimal (x < 0) n k) else None))"

definition show_fixed2 :: "real \<Rightarrow> string option" where
  "show_fixed2 x =
     (let n = nat \<lfloor>\<bar>x\<bar> * 100\<rfloor> in
      if \<bar>x\<bar> * 100 = of_int \<lfloor>\<bar>x\<bar> * 100\<rfloor> \<and> n < 10 ^ 15
      then Some (show_decimal (x < 0) n 2) else None)"

subsection \<open>The world outside: files and standard output\<close>

text \<open>
  Files are texts under their names, with no directories and no permissions: a stream opens
  for reading on a file that exists, and for writing on any name but the empty one.
\<close>

record world =
  files :: "string \<rightharpoonup> string"
  cout :: string

definition ifstream :: "world \<Rightarrow> string \<Rightarrow> string option" where
  "ifstream w fileName = (if fileName = [] then None else files w fileName)"

definition ofstream :: "world \<Rightarrow> string \<Rightarrow> string \<Rightarrow> world option" where
  "ofstream w fileName text =
     (if fileName = [] then None else Some (w\<lparr>files := (files w)(fileName \<mapsto> text)\<rparr>))"

definition print :: "string \<Rightarrow> world \<Rightarrow> world" where
  "print text w = w\<lparr>cout := cout w @ text\<rparr>"

subsection \<open>WriteOnShutdown\<close>

definition account_text :: "Account \<Rightarrow> string option" where
  "account_text a =
     (case show_double (balance a) of
        None \<Rightarrow> None
      | Some b \<Rightarrow>
          Some (last_name a @ endl @ first_name a @ endl @ [middle a] @ endl @
                show_uint (social a) @ endl @ show_uint (area a) @ endl @
                show_uint (phone a) @ endl @ b @ endl @ number a @ endl @
                password a @ endl @ endl))"

definition database_text :: "Account list \<Rightarrow> string option" where
  "database_text database = map_option concat (those (map account_text database))"

text \<open>
  The destructor. A stream that did not open takes no output; a balance outside the
  modelled renderings leaves the result open (\<^term>\<open>None\<close>).
\<close>

definition WriteOnShutdown :: "string \<Rightarrow> Account list \<Rightarrow> world \<Rightarrow> world option" where
  "WriteOnShutdown filename database w =
     (if filename = [] then Some w
      else case database_text database of
        None \<Rightarrow> None
      | Some text \<Rightarrow> ofstream w filename text)"

subsection \<open>helpMenu, displayInfo and createReport\<close>

definition VERSION :: string where "VERSION = ''1.0.0''"

definition tab :: string where "tab = [CHR 0x09]"

definition help_text :: string where
  "help_text =
     tab @ ''Bank account management software version '' @ VERSION @ endl @
     tab @ ''Usage:'' @ endl @
     tab @ ''bankacct [/'' @ [O_HELP] @ ''] - Display help menu'' @ endl @
     tab @ ''bankacct /D <action option> [info options] - Change or display information about an account'' @ endl @ endl @
     tab @ ''Action Options:'' @ endl @
     tab @ tab @ ''/'' @ [O_CHANGE_AREA] @ '' - Change the area code for a specified account'' @ endl @
     tab @ tab @ ''/'' @ [O_CHANGE_F] @ '' - Change the first name for a specified account'' @ endl @
     tab @ tab @ ''/'' @ [O_CHANGE_PHONE] @ '' - Change the phone number for a specified account'' @ endl @
     tab @ tab @ ''/'' @ [O_CHANGE_L] @ '' - Change the last name for a specified account'' @ endl @
     tab @ tab @ ''/'' @ [O_CHANGE_M] @ '' - Change the middle name for a specified account'' @ endl @
     tab @ tab @ ''/'' @ [O_REPORT] @ '' - Print a report to a specified report file'' @ endl @
     tab @ tab @ ''/'' @ [O_CHANGE_SSN] @ '' - Change the social security number for a specified account'' @ endl @
     tab @ tab @ ''/'' @ [O_TRANS] @ '' - Transfer money for one specified account to another'' @ endl @
     tab @ tab @ ''/'' @ [O_NEWPASS] @ '' - Change the password for a specified account'' @ endl @ endl @
     tab @ ''Info options:'' @ endl @
     tab @ tab @ ''/'' @ [O_NUM] @ '' - specifies the account number for an action option'' @ endl @
     tab @ tab @ ''/'' @ [O_PASS] @ '' - specifies the password for an action option'' @ endl"

definition helpMenu :: "world \<Rightarrow> world" where
  "helpMenu w = print help_text w"

definition info_text :: "Account \<Rightarrow> string option" where
  "info_text a =
     (case show_double (balance a) of
        None \<Rightarrow> None
      | Some b \<Rightarrow>
          Some (first_name a @ endl @ last_name a @ endl @ [middle a] @ endl @
                show_uint (social a) @ endl @ show_uint (area a) @ endl @
                show_uint (phone a) @ endl @ b @ endl @ number a @ endl @
                password a @ endl))"

definition displayInfo :: "Account \<Rightarrow> world \<Rightarrow> world option" where
  "displayInfo a w = map_option (\<lambda>t. print t w) (info_text a)"

definition report_head :: string where
  "report_head =
     ''-------  ----            -----           --  ---------  ------------  -------'' @ endl @
     ''Account  Last            First           MI  SS         Phone         Account'' @ endl @
     ''Number   Name            Name                Number     Number        Balance'' @ endl @
     ''-------  ----            -----           --  ---------  ------------  -------'' @ endl"

text \<open>\<^verbatim>\<open>left << setw(14)\<close>: padded on the right to fourteen characters, never cut.\<close>

definition setw14 :: "string \<Rightarrow> string" where
  "setw14 s = s @ replicate (14 - length s) CHR '' ''"

definition report_row :: "Account \<Rightarrow> string option" where
  "report_row person =
     (case show_fixed2 (balance person) of
        None \<Rightarrow> None
      | Some b \<Rightarrow>
          Some ('' '' @ number person @ ''   '' @ setw14 (last_name person) @ ''  '' @
                setw14 (first_name person) @ ''  '' @ [middle person] @ ''.  '' @
                show_uint (social person) @ ''  '' @ ''('' @ show_uint (area person) @ '')'' @
                show_uint (phone person) @ ''  '' @ b @ endl))"

text \<open>
  \<^verbatim>\<open>createReport\<close> gives \<^verbatim>\<open>false\<close> (here \<^term>\<open>Some None\<close>) when the file does not
  open, and the new world when it does; \<^term>\<open>None\<close> is a result left open by a balance
  outside the modelled renderings.
\<close>

definition createReport :: "Account list \<Rightarrow> string \<Rightarrow> world \<Rightarrow> world option option" where
  "createReport ps fileName w =
     (if fileName = [] then Some None
      else case those (map report_row ps) of
        None \<Rightarrow> None
      | Some rows \<Rightarrow> Some (ofstream w fileName (report_head @ concat rows)))"

subsection \<open>Formatted input and loadDatabase\<close>

text \<open>
  One extraction \<^verbatim>\<open>input >> x\<close> from the text that is left. \<open>Got x rest\<close>: the value was
  read and the stream is still good. \<open>AtEof\<close>: the extraction ran into the end of the
  text, before or after reading its value, so \<^verbatim>\<open>eofbit\<close> is set; the extractions after
  it do nothing and \<^verbatim>\<open>input.eof()\<close> ends the loop of \<^verbatim>\<open>loadDatabase\<close> without the
  record. \<open>Bad\<close>: the extraction failed short of the end, overran its buffer, or met a
  number this model does not read; the load has no result here.
\<close>

datatype 'a got = Got 'a string | AtEof | Bad

definition get_cstr :: "nat \<Rightarrow> string \<Rightarrow> string got" where
  "get_cstr room s =
     (let s1 = dropWhile isspace s;
          tok = takeWhile (\<lambda>c. \<not> isspace c) s1;
          rest = dropWhile (\<lambda>c. \<not> isspace c) s1
      in if s1 = [] then AtEof
         else if room < length tok then Bad
         else if rest = [] then AtEof
         else Got tok rest)"

definition get_char :: "string \<Rightarrow> char got" where
  "get_char s = (case dropWhile isspace s of [] \<Rightarrow> AtEof | c # rest \<Rightarrow> Got c rest)"

definition get_uint :: "string \<Rightarrow> 32 word got" where
  "get_uint s =
     (let s1 = dropWhile isspace s;
          ds = takeWhile isdigit s1;
          rest = dropWhile isdigit s1
      in if s1 = [] then AtEof
         else if ds = [] then Bad
         else if rest = [] then AtEof
         else if 2 ^ 32 \<le> atoi_digits 0 ds then Bad
         else Got (of_nat (atoi_digits 0 ds)) rest)"

text \<open>
  A balance is read when it is written as digits with an optional minus sign before and an
  optional point and digits after, fifteen digits at most, and white space or the end of
  the text follows.
\<close>

definition get_double :: "string \<Rightarrow> real got" where
  "get_double s =
     (let s1 = dropWhile isspace s;
          neg = (s1 \<noteq> [] \<and> hd s1 = CHR ''-'');
          s2 = (if neg then tl s1 else s1);
          d1 = takeWhile isdigit s2;
          s3 = dropWhile isdigit s2;
          point = (s3 \<noteq> [] \<and> hd s3 = CHR ''.'');
          d2 = (if point then takeWhile isdigit (tl s3) else []);
          rest = (if point then dropWhile isdigit (tl s3) else s3);
          v = real (atoi_digits 0 (d1 @ d2)) / 10 ^ length d2
      in if s1 = [] then AtEof
         else if d1 = [] \<or> 15 < length (d1 @ d2) then Bad
         else if rest = [] then AtEof
         else if \<not> isspace (hd rest) then Bad
         else Got (if neg then - v else v) rest)"

definition next_field :: "'a got \<Rightarrow> ('a \<Rightarrow> string \<Rightarrow> 'b got) \<Rightarrow> 'b got" where
  "next_field g f = (case g of Got x rest \<Rightarrow> f x rest | AtEof \<Rightarrow> AtEof | Bad \<Rightarrow> Bad)"

text \<open>The nine extractions of one round of the loop, and \<^verbatim>\<open>nameLength\<close>.\<close>

definition read_person :: "string \<Rightarrow> Account got" where
  "read_person s =
     next_field (get_cstr LAST_NAME_LENGTH s) (\<lambda>l s.
     next_field (get_cstr FIRST_NAME_LENGTH s) (\<lambda>f s.
     next_field (get_char s) (\<lambda>m s.
     next_field (get_uint s) (\<lambda>so s.
     next_field (get_uint s) (\<lambda>ar s.
     next_field (get_uint s) (\<lambda>ph s.
     next_field (get_double s) (\<lambda>b s.
     next_field (get_cstr ACC_NUM_LENGTH s) (\<lambda>n s.
     next_field (get_cstr PASS_LENGTH s) (\<lambda>p s.
       Got \<lparr>first_name = f, last_name = l, middle = m, social = so, area = ar, phone = ph,
            balance = b, number = n, password = p,
            nameLength = of_nat (length f + length l + 4)\<rparr> s)))))))))"

text \<open>
  The loop of \<^verbatim>\<open>loadDatabase\<close>. Every record read takes characters from the text, so
  the loop makes at most as many rounds as the text has characters; the first argument
  counts them down.
\<close>

fun load_loop :: "nat \<Rightarrow> string \<Rightarrow> Account list \<Rightarrow> Account list option" where
  "load_loop n s people =
     (case read_person s of
        AtEof \<Rightarrow> Some people
      | Bad \<Rightarrow> None
      | Got person rest \<Rightarrow>
          (case n of 0 \<Rightarrow> None | Suc k \<Rightarrow> load_loop k rest (people @ [person])))"

declare load_loop.simps [simp del]

text \<open>
  \<^verbatim>\<open>loadDatabase\<close> gives \<^verbatim>\<open>false\<close> (here \<^term>\<open>Some None\<close>) when the file does not
  open, and the records when it does; \<^term>\<open>None\<close> is a load without a result.
\<close>

definition loadDatabase :: "Account list \<Rightarrow> string \<Rightarrow> world \<Rightarrow> Account list option option" where
  "loadDatabase people fileName w =
     (case ifstream w fileName of
        None \<Rightarrow> Some None
      | Some input \<Rightarrow> map_option Some (load_loop (length input) input people))"

subsection \<open>parseArgs: the state and the steps of its two loops\<close>

text \<open>
  The variables of \<^verbatim>\<open>parseArgs\<close> that outlive a round of its loops, and the world.
  \<^verbatim>\<open>buf\<close> is set and read within one round.
\<close>

record state =
  args :: args
  people :: "Account list"
  acc :: ptr
  acc2 :: ptr
  world :: world

text \<open>
  A round of a loop goes on to the next round, returns an exit code, or has no defined
  result: it writes through a pointer to no account, overruns a buffer, or prints a balance
  outside the modelled renderings.
\<close>

datatype flow = Next state | Return nat state | Undefined

text \<open>
  \<^verbatim>\<open>findAccount(people, yankArg(args, O_NUM), yankArg(args, O_PASS))\<close>. The two yanks are on
  different codes, so the order in which the compiler evaluates them does not show.
\<close>

definition find_yanked :: "state \<Rightarrow> ptr \<times> state" where
  "find_yanked s =
     (case yankArg (args s) O_NUM of (n, m1) \<Rightarrow>
      case yankArg m1 O_PASS of (p, m2) \<Rightarrow>
        (findAccount (people s) n p, s\<lparr>args := m2\<rparr>))"

text \<open>A write through \<^verbatim>\<open>acc->\<close>; the new field may fail to fit its buffer.\<close>

definition through :: "ptr \<Rightarrow> (Account \<Rightarrow> Account option) \<Rightarrow> state \<Rightarrow> flow" where
  "through p f s =
     (case p of
        None \<Rightarrow> Undefined
      | Some i \<Rightarrow>
          if length (people s) \<le> i then Undefined
          else (case f (people s ! i) of
                  None \<Rightarrow> Undefined
                | Some a \<Rightarrow> Next (s\<lparr>people := (people s)[i := a]\<rparr>)))"

definition strcpy :: "nat \<Rightarrow> string \<Rightarrow> string option" where
  "strcpy room buf = (if room < length buf then None else Some buf)"

text \<open>
  The seven cases that change one field are the same lines around a check and a write:
  find the account or take \<^verbatim>\<open>acc2\<close>, yank the value, check it, write it.
\<close>

definition change_field ::
  "char \<Rightarrow> (string \<Rightarrow> bool) \<Rightarrow> (string \<Rightarrow> Account \<Rightarrow> Account option) \<Rightarrow> state \<Rightarrow> flow" where
  "change_field code ok put s =
     (case find_yanked s of (found, s1) \<Rightarrow>
      let s2 = s1\<lparr>acc := found\<rparr> in
      if found = None \<and> acc2 s2 = None then Return ERR_NO_ACCOUNT s2
      else
        let s3 = (if found = None then s2\<lparr>acc := acc2 s2\<rparr> else s2) in
        case yankArg (args s3) code of (buf, m) \<Rightarrow>
        let s4 = s3\<lparr>args := m\<rparr> in
        (case buf of
           None \<Rightarrow> Return ERR_NO_INFO s4
         | Some b \<Rightarrow>
             if \<not> ok b then Return ERR_NO_INFO s4
             else through (acc s4) (put b) s4))"

definition transfer :: "state \<Rightarrow> flow" where
  "transfer s =
     (case find_yanked s of (found, s1) \<Rightarrow>
      let s2 = s1\<lparr>acc := found\<rparr> in
      if found = None then Return ERR_NO_ACCOUNT s2
      else
        case find_yanked s2 of (found2, s3) \<Rightarrow>
        let s4 = s3\<lparr>acc2 := found2\<rparr> in
        if found2 = None then Return ERR_NO_TRANSFER_ACCOUNT s4
        else
          case yankArg (args s4) O_TRANS of (buf, m) \<Rightarrow>
          let s5 = s4\<lparr>args := m\<rparr> in
          (case buf of
             None \<Rightarrow> Return ERR_NO_INFO s5
           | Some b \<Rightarrow>
               if \<not> regex_match b R_NAME then Return ERR_NO_INFO s5
               else if length (people s5) \<le> the (acc s5) then Undefined
               else if balance (people s5 ! the (acc s5)) < real_of_int (atoi b)
                 then Return ERR_TOO_MUCH_TRANSFER s5
               else
                 (case through (acc s5)
                         (\<lambda>a. Some (a\<lparr>balance := balance a - real_of_int (atoi b)\<rparr>)) s5 of
                    Next s6 \<Rightarrow>
                      through (acc2 s6)
                        (\<lambda>a. Some (a\<lparr>balance := balance a + real_of_int (atoi b)\<rparr>)) s6
                  | r \<Rightarrow> r)))"

text \<open>The \<^verbatim>\<open>switch\<close> of the first loop.\<close>

definition action :: "char \<Rightarrow> state \<Rightarrow> flow" where
  "action code s =
     (if code = O_CHANGE_AREA then
        change_field O_CHANGE_AREA (\<lambda>b. regex_match b R_AREA)
          (\<lambda>b a. Some (a\<lparr>area := of_int (atoi b)\<rparr>)) s
      else if code = O_CHANGE_F then
        change_field O_CHANGE_F (\<lambda>b. regex_match b R_NAME)
          (\<lambda>b a. map_option (\<lambda>v. a\<lparr>first_name := v\<rparr>) (strcpy FIRST_NAME_LENGTH b)) s
      else if code = O_CHANGE_PHONE then
        change_field O_CHANGE_PHONE (\<lambda>b. regex_match b R_PHONE)
          (\<lambda>b a. Some (a\<lparr>phone := of_int (atoi b)\<rparr>)) s
      else if code = O_CHANGE_L then
        change_field O_CHANGE_L (\<lambda>b. regex_match b R_NAME)
          (\<lambda>b a. map_option (\<lambda>v. a\<lparr>last_name := v\<rparr>) (strcpy LAST_NAME_LENGTH b)) s
      else if code = O_CHANGE_M then
        change_field O_CHANGE_M (\<lambda>b. b \<noteq> [] \<and> isalpha (hd b))
          (\<lambda>b a. Some (a\<lparr>middle := hd b\<rparr>)) s
      else if code = O_CHANGE_SSN then
        change_field O_CHANGE_SSN (\<lambda>b. regex_match b R_SSN)
          (\<lambda>b a. Some (a\<lparr>social := of_int (atoi b)\<rparr>)) s
      else if code = O_TRANS then transfer s
      else if code = O_NEWPASS then
        change_field O_NEWPASS (\<lambda>b. regex_match b R_PASS)
          (\<lambda>b a. map_option (\<lambda>v. a\<lparr>password := v\<rparr>) (strcpy PASS_LENGTH b)) s
      else Next s)"

text \<open>One round of the first loop: the \<^verbatim>\<open>switch\<close>, then \<^verbatim>\<open>acc2 = acc\<close>.\<close>

definition first_round :: "char \<Rightarrow> state \<Rightarrow> flow" where
  "first_round code s =
     (case action code s of Next s' \<Rightarrow> Next (s'\<lparr>acc2 := acc s'\<rparr>) | r \<Rightarrow> r)"

text \<open>One round of the second loop.\<close>

definition second_round :: "char \<Rightarrow> state \<Rightarrow> flow" where
  "second_round code s =
     (if code = O_INFO then
        (case yankArg (args s) O_INFO of (_, m) \<Rightarrow>
         case find_yanked (s\<lparr>args := m\<rparr>) of (found, s1) \<Rightarrow>
         let s2 = s1\<lparr>acc2 := (if found = None then acc s1 else found)\<rparr> in
         (case acc2 s2 of
            None \<Rightarrow> Return ERR_NO_ACCOUNT s2
          | Some i \<Rightarrow>
              if length (people s2) \<le> i then Undefined
              else (case displayInfo (people s2 ! i) (world s2) of
                      None \<Rightarrow> Undefined
                    | Some w \<Rightarrow> Next (s2\<lparr>world := w\<rparr>))))
      else if code = O_REPORT then
        (case yankArg (args s) O_REPORT of (fileName, m) \<Rightarrow>
         let s1 = s\<lparr>args := m\<rparr> in
         (case fileName of
            None \<Rightarrow> Undefined
          | Some f \<Rightarrow>
              (case createReport (people s1) f (world s1) of
                 None \<Rightarrow> Undefined
               | Some None \<Rightarrow> Return ERR_REPORT_FILE_ERR s1
               | Some (Some w) \<Rightarrow> Next (s1\<lparr>world := w\<rparr>))))
      else Next s)"

text \<open>
  A loop \<^verbatim>\<open>for(pair<char, vector<char*>> arg : *args)\<close> over the keys of the map. The
  rounds change the vectors of the map and never its keys, so the keys the loop visits are
  those the map has when the loop starts.
\<close>

fun rounds :: "(char \<Rightarrow> state \<Rightarrow> flow) \<Rightarrow> char list \<Rightarrow> state \<Rightarrow> flow" where
  "rounds body [] s = Next s"
| "rounds body (code # codes) s =
     (case body code s of Next s' \<Rightarrow> rounds body codes s' | r \<Rightarrow> r)"

definition first_loop :: "state \<Rightarrow> flow" where
  "first_loop s = rounds first_round (map fst (args s)) s"

definition second_loop :: "state \<Rightarrow> flow" where
  "second_loop s = rounds second_round (map fst (args s)) s"

text \<open>The two loops and \<^verbatim>\<open>return 0\<close>.\<close>

definition run_actions :: "state \<Rightarrow> flow" where
  "run_actions s =
     (case first_loop s of
        Next s1 \<Rightarrow> (case second_loop s1 of Next s2 \<Rightarrow> Return 0 s2 | r \<Rightarrow> r)
      | r \<Rightarrow> r)"

subsection \<open>parseArgs and main\<close>

text \<open>
  \<^verbatim>\<open>Account* acc; Account* acc2;\<close> are declared without a value. The values they hold
  when the first loop starts are not given by the program, so they are arguments of the
  model. The result is the exit code and the world the run leaves, or \<^term>\<open>None\<close> for a
  run without a defined result. \<^verbatim>\<open>std::sort\<close> may order accounts with equal numbers
  either way; the model keeps them in file order.
\<close>

definition load_message :: "string \<Rightarrow> string" where
  "load_message fileName = ''ERR! Could not load '' @ [CHR 0x22] @ fileName @ [CHR 0x22]"

definition parseArgs :: "args \<Rightarrow> Account list \<Rightarrow> world \<Rightarrow> ptr \<Rightarrow> ptr \<Rightarrow> (nat \<times> world) option" where
  "parseArgs m people0 w acc_0 acc2_0 =
     (let w1 = (if m = [] \<or> find_arg m O_HELP \<noteq> None then helpMenu w else w) in
      case find_arg m O_DATA of
        None \<Rightarrow> Some (ERR_NO_DB, w1)
      | Some ds \<Rightarrow>
          if ds = [] then None
          else
            (case loadDatabase people0 (last ds) w1 of
               None \<Rightarrow> None
             | Some None \<Rightarrow> Some (ERR_DB_NOT_FOUND, print (load_message (last ds)) w1)
             | Some (Some loaded) \<Rightarrow>
                 (case run_actions
                         \<lparr>args = m, people = sort_key number loaded,
                          acc = acc_0, acc2 = acc2_0, world = w1\<rparr> of
                    Return code s \<Rightarrow>
                      map_option (Pair code) (WriteOnShutdown (last ds) (people s) (world s))
                  | _ \<Rightarrow> None)))"

definition main :: "string list \<Rightarrow> world \<Rightarrow> ptr \<Rightarrow> ptr \<Rightarrow> (nat \<times> world) option" where
  "main argv w acc_0 acc2_0 = parseArgs (sortArgs argv) [] w acc_0 acc2_0"

subsection \<open>Notions used to state the properties\<close>

text \<open>
  The values a command line supplies for a code, in the order of the command line; the
  values a map still holds for a code; \<open>n\<close> calls of \<^verbatim>\<open>yankArg\<close> on one code, one after
  the other, with what each returned; and the keys of a map in ascending order.
\<close>

fun value_for :: "char \<Rightarrow> string \<Rightarrow> string list" where
  "value_for c (c0 # c1 # v) = (if c0 = SLASH \<and> c1 = c then [v] else [])"
| "value_for c _ = []"

definition supplied :: "string list \<Rightarrow> char \<Rightarrow> string list" where
  "supplied argv c = concat (map (value_for c) argv)"

definition queue :: "args \<Rightarrow> char \<Rightarrow> string list" where
  "queue m c = (case find_arg m c of None \<Rightarrow> [] | Some vs \<Rightarrow> vs)"

fun yanks :: "nat \<Rightarrow> args \<Rightarrow> char \<Rightarrow> string option list \<times> args" where
  "yanks 0 m c = ([], m)"
| "yanks (Suc n) m c =
     (case yankArg m c of (re, m1) \<Rightarrow> case yanks n m1 c of (res, m2) \<Rightarrow> (re # res, m2))"

definition keys_sorted :: "args \<Rightarrow> bool" where
  "keys_sorted m \<longleftrightarrow> sorted_wrt (<) (map fst m)"






text \<open>What a run shows: its exit code and the text it leaves in one file.\<close>

definition exit_and_file :: "string \<Rightarrow> (nat \<times> world) option \<Rightarrow> (nat \<times> string option) option" where
  "exit_and_file fileName r = map_option (\<lambda>(code, w). (code, files w fileName)) r"

definition lines :: "string list \<Rightarrow> string" where
  "lines ls = concat (map (\<lambda>l. l @ endl) ls)"

subsection \<open>A database of two accounts\<close>

definition doe :: Account where
  "doe = \<lparr>first_name = ''Jane'', last_name = ''Doe'', middle = CHR ''J'',
          social = 123456789, area = 555, phone = 5551234, balance = 100,
          number = ''A0001'', password = ''ABC123'', nameLength = 11\<rparr>"

definition roe :: Account where
  "roe = \<lparr>first_name = ''Rick'', last_name = ''Roe'', middle = CHR ''R'',
          social = 987654321, area = 555, phone = 5559876, balance = 10,
          number = ''A0002'', password = ''XYZ789'', nameLength = 11\<rparr>"

definition bank_db :: string where
  "bank_db =
     lines [''Doe Jane J 123456789 555 5551234 100.00 A0001 ABC123'',
            ''Roe Rick R 987654321 555 5559876 10.00 A0002 XYZ789'']"

definition bank :: world where
  "bank = \<lparr>files = [''bank.db'' \<mapsto> bank_db], cout = []\<rparr>"

definition bank_state :: "args \<Rightarrow> ptr \<Rightarrow> ptr \<Rightarrow> state" where
  "bank_state m a a2 = \<lparr>args = m, people = [doe, roe], acc = a, acc2 = a2, world = bank\<rparr>"

text \<open>The first record alone, with no white space after its last token.\<close>

definition cut_short :: world where
  "cut_short =
     \<lparr>files = [''bank.db'' \<mapsto> ''Doe Jane J 123456789 555 5551234 100.00 A0001 ABC123''],
      cout = []\<rparr>"

subsection \<open>Well-formed source files\<close>














section \<open>Properties\<close>

subsection \<open>Evaluating the model on the database of two accounts\<close>

lemmas char_defs = isdigit_def isspace_def isalpha_def digit_val_def endl_def lines_def single_def
lemmas stream_defs =
  read_person_def next_field_def get_cstr_def get_char_def get_uint_def get_double_def
  FIRST_NAME_LENGTH_def LAST_NAME_LENGTH_def ACC_NUM_LENGTH_def PASS_LENGTH_def
lemmas show_defs =
  show_double_def places_def show_decimal_def zero_pad_def show_nat.simps digit_char_def
  show_uint_def show_fixed2_def
lemmas engine_defs =
  run_actions_def first_loop_def second_loop_def first_round_def
  second_round_def action_def change_field_def transfer_def find_yanked_def through_def
  strcpy_def bank_state_def FIRST_NAME_LENGTH_def LAST_NAME_LENGTH_def PASS_LENGTH_def

lemma load_bank: "loadDatabase [] ''bank.db'' bank = Some (Some [doe, roe])"
  by (simp add: loadDatabase_def ifstream_def bank_def)
     (simp add: bank_db_def doe_def roe_def char_defs stream_defs load_loop.simps)

lemma sort_bank: "sort_key number [doe, roe] = [doe, roe]"
  by (simp add: doe_def roe_def)

lemma run_bank:
  assumes "find_arg m O_DATA = Some [''bank.db'']" and "find_arg m O_HELP = None"
    and "run_actions (bank_state m a a2) = Return code s"
    and "world s = bank" and "database_text (people s) = Some t"
  shows "exit_and_file ''bank.db'' (parseArgs m [] bank a a2) = Some (code, Some t)"
proof -
  from assms(1) have "m \<noteq> []" by auto
  with assms show ?thesis
    by (simp add: parseArgs_def load_bank sort_bank WriteOnShutdown_def ofstream_def
        exit_and_file_def Let_def bank_state_def del: sort_key_simps)
qed

lemma text_bank: "database_text [doe, roe] = Some (lines
     [''Doe'', ''Jane'', ''J'', ''123456789'', ''555'', ''5551234'', ''100'', ''A0001'', ''ABC123'', '''',
      ''Roe'', ''Rick'', ''R'', ''987654321'', ''555'', ''5559876'', ''10'', ''A0002'', ''XYZ789'', ''''])"
  by (simp add: database_text_def account_text_def doe_def roe_def show_defs char_defs)

lemma text_roe_702: "database_text [doe, roe\<lparr>area := 702\<rparr>] = Some (lines
     [''Doe'', ''Jane'', ''J'', ''123456789'', ''555'', ''5551234'', ''100'', ''A0001'', ''ABC123'', '''',
      ''Roe'', ''Rick'', ''R'', ''987654321'', ''702'', ''5559876'', ''10'', ''A0002'', ''XYZ789'', ''''])"
  by (simp add: database_text_def account_text_def doe_def roe_def show_defs char_defs)



lemma args_area_only:
  "sortArgs [''./bankacct'', ''/Dbank.db'', ''/A702''] =
   [(O_CHANGE_AREA, [''702'']), (O_DATA, [''bank.db''])]"
  by (simp add: sortArgs_def option_codes)

lemma main_bank:
  assumes "sortArgs argv = m"
    and "find_arg m O_DATA = Some [''bank.db'']" and "find_arg m O_HELP = None"
    and "run_actions (bank_state m a a2) = Return code s"
    and "world s = bank" and "database_text (people s) = Some t"
  shows "exit_and_file ''bank.db'' (main argv bank a a2) = Some (code, Some t)"
  unfolding main_def assms(1) using assms(2-) by (rule run_bank)

subsection \<open>Digits and numbers\<close>

lemma of_char_nat_eq: "(of_char c :: nat) = n \<Longrightarrow> n = of_char d \<Longrightarrow> c = d"
  by simp

lemma isdigit_cases: "isdigit c \<Longrightarrow> c \<in> set ''0123456789''"
proof -
  assume "isdigit c"
  then have "48 \<le> (of_char c :: nat)" "(of_char c :: nat) \<le> 57"
    by (simp_all add: isdigit_def less_eq_char_def)
  then have "(of_char c :: nat) = 48 \<or> (of_char c :: nat) = 49 \<or> (of_char c :: nat) = 50 \<or>
      (of_char c :: nat) = 51 \<or> (of_char c :: nat) = 52 \<or> (of_char c :: nat) = 53 \<or>
      (of_char c :: nat) = 54 \<or> (of_char c :: nat) = 55 \<or> (of_char c :: nat) = 56 \<or>
      (of_char c :: nat) = 57"
    by arith
  then consider "(of_char c :: nat) = 48" | "(of_char c :: nat) = 49" | "(of_char c :: nat) = 50"
    | "(of_char c :: nat) = 51" | "(of_char c :: nat) = 52" | "(of_char c :: nat) = 53"
    | "(of_char c :: nat) = 54" | "(of_char c :: nat) = 55" | "(of_char c :: nat) = 56"
    | "(of_char c :: nat) = 57"
    by blast
  then show ?thesis
  proof cases
    case 1 then have "c = CHR ''0''" by (rule of_char_nat_eq) simp
    then show ?thesis by simp
  next
    case 2 then have "c = CHR ''1''" by (rule of_char_nat_eq) simp
    then show ?thesis by simp
  next
    case 3 then have "c = CHR ''2''" by (rule of_char_nat_eq) simp
    then show ?thesis by simp
  next
    case 4 then have "c = CHR ''3''" by (rule of_char_nat_eq) simp
    then show ?thesis by simp
  next
    case 5 then have "c = CHR ''4''" by (rule of_char_nat_eq) simp
    then show ?thesis by simp
  next
    case 6 then have "c = CHR ''5''" by (rule of_char_nat_eq) simp
    then show ?thesis by simp
  next
    case 7 then have "c = CHR ''6''" by (rule of_char_nat_eq) simp
    then show ?thesis by simp
  next
    case 8 then have "c = CHR ''7''" by (rule of_char_nat_eq) simp
    then show ?thesis by simp
  next
    case 9 then have "c = CHR ''8''" by (rule of_char_nat_eq) simp
    then show ?thesis by simp
  next
    case 10 then have "c = CHR ''9''" by (rule of_char_nat_eq) simp
    then show ?thesis by simp
  qed
qed

lemma digit_char_val: "isdigit c \<Longrightarrow> digit_val c < 10 \<and> digit_char (digit_val c) = c \<and> (digit_val c = 0 \<longleftrightarrow> c = CHR ''0'')"
  by (drule isdigit_cases) (auto simp: digit_val_def digit_char_def)






lemma atoi_digits_bound:
  "list_all isdigit t \<Longrightarrow> atoi_digits n t < (n + 1) * 10 ^ length t"
proof (induction t arbitrary: n)
  case Nil
  show ?case by simp
next
  case (Cons c t)
  then have c: "isdigit c" and t: "list_all isdigit t" by simp_all
  from digit_char_val [OF c] have "10 * n + digit_val c + 1 \<le> 10 * (n + 1)" by simp
  then have "(10 * n + digit_val c + 1) * 10 ^ length t \<le> (10 * (n + 1)) * 10 ^ length t"
    by (rule mult_le_mono1)
  have "atoi_digits n (c # t) = atoi_digits (10 * n + digit_val c) t"
    using c by simp
  also have "\<dots> < (10 * n + digit_val c + 1) * 10 ^ length t"
    by (rule Cons.IH [OF t])
  also note \<open>(10 * n + digit_val c + 1) * 10 ^ length t \<le> (10 * (n + 1)) * 10 ^ length t\<close>
  also have "(10 * (n + 1)) * 10 ^ length t = (n + 1) * 10 ^ length (c # t)"
    by (simp add: algebra_simps)
  finally show ?case .
qed

lemma atoi_Times_Digit:
  assumes "regex_match b (Times Digit k)" and "k \<le> 9"
  shows "0 \<le> atoi b \<and> atoi b < 2 ^ 31"
proof -
  from assms(1) have len: "length b = k" and digits: "list_all isdigit b"
    by (simp_all add: list_all_iff)
  have conv: "atoi b = int (atoi_digits 0 b)"
  proof (cases b)
    case Nil
    then show ?thesis by (simp add: atoi_def)
  next
    case (Cons c cs)
    with digits have "isdigit c" by simp
    then have "c \<in> set ''0123456789''" by (rule isdigit_cases)
    then have "\<not> isspace c \<and> c \<noteq> CHR ''-'' \<and> c \<noteq> CHR ''+''"
      by (auto simp: isspace_def)
    with Cons show ?thesis by (simp add: atoi_def)
  qed
  have "atoi_digits 0 b < 10 ^ k"
    using atoi_digits_bound [OF digits, of 0] len by simp
  also have "(10::nat) ^ k \<le> 10 ^ 9"
    using assms(2) by (intro power_increasing) simp_all
  finally have "atoi_digits 0 b < 2 ^ 31" by simp
  then have "int (atoi_digits 0 b) < 2 ^ 31"
    by (metis of_nat_less_iff of_nat_numeral of_nat_power)
  with conv show ?thesis by simp
qed

subsection \<open>The option map\<close>

lemma push_arg_keys: "set (map fst (push_arg c v m)) = insert c (set (map fst m))"
  by (induction c v m rule: push_arg.induct) auto

lemma push_arg_sorted: "keys_sorted m \<Longrightarrow> keys_sorted (push_arg c v m)"
proof (induction m)
  case Nil
  then show ?case by (simp add: keys_sorted_def)
next
  case (Cons e m)
  obtain k vs where e: "e = (k, vs)" by (cases e)
  from Cons.prems have tail: "keys_sorted m" and head: "\<forall>x\<in>set (map fst m). k < x"
    by (auto simp: keys_sorted_def e)
  have "\<forall>x\<in>set (map fst (push_arg c v m)). k < x" if "k < c"
    using head that by (simp only: push_arg_keys) auto
  with Cons.IH [OF tail] Cons.prems show ?case
    by (auto simp: keys_sorted_def e)
qed

lemma find_arg_None: "find_arg m c = None \<longleftrightarrow> c \<notin> set (map fst m)"
  by (induction m c rule: find_arg.induct) auto

lemma find_arg_push:
  "keys_sorted m \<Longrightarrow>
   find_arg (push_arg k v m) c = (if c = k then Some (queue m k @ [v]) else find_arg m c)"
proof (induction m)
  case Nil
  then show ?case by (simp add: queue_def)
next
  case (Cons e m)
  obtain k' vs where e: "e = (k', vs)" by (cases e)
  from Cons.prems have tail: "keys_sorted m" and head: "\<forall>x\<in>set (map fst m). k' < x"
    by (auto simp: keys_sorted_def e)
  have absent: "find_arg m k = None" if "k < k'"
    using head that by (force simp: find_arg_None)
  show ?case
    using Cons.IH [OF tail] absent by (auto simp: e queue_def)
qed

lemma sortArg_sorted: "keys_sorted m \<Longrightarrow> keys_sorted (sortArg m a)"
  by (cases "(m, a)" rule: sortArg.cases) (auto simp: push_arg_sorted)



lemma queue_sortArg:
  "keys_sorted m \<Longrightarrow> queue (sortArg m a) c = queue m c @ value_for c a"
  by (cases "(m, a)" rule: sortArg.cases) (auto simp: queue_def find_arg_push)

lemma queue_foldl_sortArg:
  "keys_sorted m \<Longrightarrow> queue (foldl sortArg m argv) c = queue m c @ supplied argv c"
  by (induction argv arbitrary: m) (auto simp: supplied_def queue_sortArg sortArg_sorted)

lemma queue_sortArgs: "queue (sortArgs argv) c = supplied argv c"
  using queue_foldl_sortArg [of "[]" argv c] by (simp add: sortArgs_def keys_sorted_def queue_def)

lemma yankArg_queue:
  "yankArg m c = (re, m') \<Longrightarrow>
   re = (case queue m c of [] \<Rightarrow> None | v # vs \<Rightarrow> Some v) \<and>
   queue m' c' = (if c' = c then tl (queue m c) else queue m c') \<and>
   map fst m' = map fst m"
  by (induction m arbitrary: re m') (auto simp: queue_def split: list.splits prod.splits if_splits)

lemma yankArg_empty: "queue m c = [] \<Longrightarrow> yankArg m c = (None, m)"
  by (induction m) (auto simp: queue_def split: list.splits prod.splits if_splits)

lemma yanks_queue:
  "fst (yanks n m c) = map Some (take n (queue m c)) @ replicate (n - length (queue m c)) None \<and>
   queue (snd (yanks n m c)) c = drop n (queue m c)"
proof (induction n arbitrary: m)
  case 0
  show ?case by simp
next
  case (Suc n)
  obtain re m1 where y: "yankArg m c = (re, m1)" by (cases "yankArg m c")
  note q = yankArg_queue [OF y, of c]
  show ?case
  proof (cases "queue m c")
    case Nil
    with q Suc.IH [of m1] y show ?thesis
      by (simp add: split_beta replicate_app_Cons_same)
  next
    case (Cons v vs)
    with q Suc.IH [of m1] y show ?thesis
      by (simp add: split_beta)
  qed
qed

text \<open>
  C5. When a command line supplies exactly two values for a code, successive calls of
  \<^verbatim>\<open>yankArg\<close> on that code return the first value, then the second, each call taking
  its value out of the map, and every further call returns \<^verbatim>\<open>nullptr\<close>. A call on a
  code that was never supplied returns \<^verbatim>\<open>nullptr\<close> and leaves the map as it is.
\<close>

theorem yankArg_fifo:
  "(supplied argv c = [v1, v2] \<longrightarrow>
      fst (yanks (Suc (Suc n)) (sortArgs argv) c) = Some v1 # Some v2 # replicate n None \<and>
      queue (snd (yanks 1 (sortArgs argv) c)) c = [v2] \<and>
      queue (snd (yanks 2 (sortArgs argv) c)) c = []) \<and>
   (supplied argv c = [] \<longrightarrow>
      yankArg (sortArgs argv) c = (None, sortArgs argv) \<and>
      fst (yanks n (sortArgs argv) c) = replicate n None)"
proof (intro conjI impI)
  assume two: "supplied argv c = [v1, v2]"
  show "fst (yanks (Suc (Suc n)) (sortArgs argv) c) = Some v1 # Some v2 # replicate n None"
    using yanks_queue [of "Suc (Suc n)" "sortArgs argv" c] two by (simp add: queue_sortArgs)
  show "queue (snd (yanks 1 (sortArgs argv) c)) c = [v2]"
    using yanks_queue [of 1 "sortArgs argv" c] two by (simp add: queue_sortArgs)
  show "queue (snd (yanks 2 (sortArgs argv) c)) c = []"
    using yanks_queue [of 2 "sortArgs argv" c] two by (simp add: queue_sortArgs)
next
  assume none: "supplied argv c = []"
  show "yankArg (sortArgs argv) c = (None, sortArgs argv)"
    using none by (simp add: yankArg_empty queue_sortArgs)
  show "fst (yanks n (sortArgs argv) c) = replicate n None"
    using yanks_queue [of n "sortArgs argv" c] none by (simp add: queue_sortArgs)
qed

theorem yankArg_fifo_witness:
  "supplied [''./bankacct'', ''/Fblah'', ''/Hblah2'', ''/Fblah3''] CHR ''F'' = [''blah'', ''blah3''] \<and>
   fst (yanks 3 (sortArgs [''./bankacct'', ''/Fblah'', ''/Hblah2'', ''/Fblah3'']) CHR ''F'') =
     [Some ''blah'', Some ''blah3'', None] \<and>
   supplied [''./bankacct'', ''/Fblah'', ''/Hblah2'', ''/Fblah3''] CHR ''L'' = [] \<and>
   yankArg (sortArgs [''./bankacct'', ''/Fblah'', ''/Hblah2'', ''/Fblah3'']) CHR ''L'' =
     (None, sortArgs [''./bankacct'', ''/Fblah'', ''/Hblah2'', ''/Fblah3''])"
proof -
  have two: "supplied [''./bankacct'', ''/Fblah'', ''/Hblah2'', ''/Fblah3''] CHR ''F'' = [''blah'', ''blah3'']"
    by (simp add: supplied_def SLASH_def)
  have none: "supplied [''./bankacct'', ''/Fblah'', ''/Hblah2'', ''/Fblah3''] CHR ''L'' = []"
    by (simp add: supplied_def SLASH_def)
  from yankArg_fifo [of "[''./bankacct'', ''/Fblah'', ''/Hblah2'', ''/Fblah3'']" "CHR ''F''" "''blah''" "''blah3''" 1] two
  have a: "fst (yanks 3 (sortArgs [''./bankacct'', ''/Fblah'', ''/Hblah2'', ''/Fblah3'']) CHR ''F'') =
     [Some ''blah'', Some ''blah3'', None]"
    by (simp add: numeral_3_eq_3)
  from yankArg_fifo [of "[''./bankacct'', ''/Fblah'', ''/Hblah2'', ''/Fblah3'']" "CHR ''L''" _ _ 0] none
  have b: "yankArg (sortArgs [''./bankacct'', ''/Fblah'', ''/Hblah2'', ''/Fblah3'']) CHR ''L'' =
     (None, sortArgs [''./bankacct'', ''/Fblah'', ''/Hblah2'', ''/Fblah3''])"
    by simp
  from two none a b show ?thesis by simp
qed

subsection \<open>The amount of a transfer\<close>

lemma find_yanked_people: "find_yanked s = (p, s') \<Longrightarrow> people s' = people s \<and> acc s' = acc s \<and> acc2 s' = acc2 s \<and> world s' = world s"
  by (auto simp: find_yanked_def split: prod.splits)

lemma in_alpha_bracket:
  "in_class (Bracket (map single '':alpha:'')) c \<longleftrightarrow> c \<in> set '':alph''"
  by (auto simp: single_def)

lemma R_NAME_chars: "regex_match b R_NAME \<longleftrightarrow> set b \<subseteq> set '':alph''"
  unfolding R_NAME_def regex_match.simps list_all_iff in_alpha_bracket by auto

lemma R_NAME_no_digit: "regex_match b R_NAME \<Longrightarrow> c \<in> set b \<Longrightarrow> \<not> isdigit c \<and> \<not> isspace c \<and> c \<noteq> CHR ''-'' \<and> c \<noteq> CHR ''+''"
  by (auto simp: R_NAME_chars isdigit_def isspace_def)

lemma atoi_R_NAME: "regex_match b R_NAME \<Longrightarrow> atoi b = 0"
proof (cases b)
  case Nil
  then show ?thesis by (simp add: atoi_def)
next
  case (Cons c cs)
  assume "regex_match b R_NAME"
  from R_NAME_no_digit [OF this, of c] Cons show ?thesis
    by (simp add: atoi_def)
qed

lemma through_Some: "through p Some s = Next s' \<Longrightarrow> s' = s"
  by (auto simp: through_def split: option.splits if_splits)

lemma transfer_Next_people: "transfer s = Next s' \<Longrightarrow> people s' = people s"
  unfolding transfer_def
  by (auto simp: Let_def atoi_R_NAME split: prod.splits option.splits if_splits flow.splits
      dest!: through_Some find_yanked_people)

text \<open>
  C10. The pattern that checks the amount of a transfer accepts no string with a digit in
  it, and \<^verbatim>\<open>atoi\<close> of every string it accepts is 0; so a round of the transfer that
  goes on to the next round has left every account as it was.
\<close>

theorem transfer_moves_nothing:
  "(regex_match b R_NAME \<longrightarrow> atoi b = 0 \<and> (\<forall>c\<in>set b. \<not> isdigit c)) \<and>
   (first_round O_TRANS s = Next s' \<longrightarrow> people s' = people s)"
proof (intro conjI impI)
  assume m: "regex_match b R_NAME"
  then show "atoi b = 0" by (rule atoi_R_NAME)
  from m show "\<forall>c\<in>set b. \<not> isdigit c" by (blast dest: R_NAME_no_digit)
next
  assume "first_round O_TRANS s = Next s'"
  then obtain s1 where "transfer s = Next s1" and "s' = s1\<lparr>acc2 := acc s1\<rparr>"
    by (auto simp: first_round_def action_def option_codes split: flow.splits)
  then show "people s' = people s" by (simp add: transfer_Next_people)
qed

theorem transfer_moves_nothing_witness:
  "regex_match ''alpha'' R_NAME \<and> atoi ''alpha'' = 0 \<and> \<not> list_ex isdigit ''alpha'' \<and>
   first_round O_TRANS
     (bank_state [(O_NUM, [''A0001'', ''A0002'']), (O_PASS, [''ABC123'', ''XYZ789'']),
                  (O_TRANS, [''alpha''])] None None) =
   Next (bank_state [(O_NUM, []), (O_PASS, []), (O_TRANS, [])] (Some 0) (Some 0)) \<and>
   people (bank_state [(O_NUM, []), (O_PASS, []), (O_TRANS, [])] (Some 0) (Some 0)) =
   people (bank_state [(O_NUM, [''A0001'', ''A0002'']), (O_PASS, [''ABC123'', ''XYZ789'']),
                  (O_TRANS, [''alpha''])] None None)"
proof -
  have m: "regex_match ''alpha'' R_NAME"
    by (simp add: patterns char_defs)
  have r: "first_round O_TRANS
     (bank_state [(O_NUM, [''A0001'', ''A0002'']), (O_PASS, [''ABC123'', ''XYZ789'']),
                  (O_TRANS, [''alpha''])] None None) =
   Next (bank_state [(O_NUM, []), (O_PASS, []), (O_TRANS, [])] (Some 0) (Some 0))"
    by (simp add: engine_defs option_codes patterns char_defs doe_def roe_def atoi_def)
  from transfer_moves_nothing [of "''alpha''"
      "bank_state [(O_NUM, [''A0001'', ''A0002'']), (O_PASS, [''ABC123'', ''XYZ789'']),
                  (O_TRANS, [''alpha''])] None None"
      "bank_state [(O_NUM, []), (O_PASS, []), (O_TRANS, [])] (Some 0) (Some 0)"] m r
  show ?thesis by (simp add: list_ex_iff)
qed

text \<open>
  C1. A transfer of 30 from account A0001, which holds 100, to account A0002, with the number
  and the password of both, ends the run with \<^verbatim>\<open>ERR_NO_INFO\<close> and leaves both accounts
  as they were: the amount is checked against \<^verbatim>\<open>R_NAME\<close>, which no string with a digit
  in it matches.
\<close>

theorem transfer_of_30:
  "first_round O_TRANS
     (bank_state [(O_NUM, [''A0001'', ''A0002'']), (O_PASS, [''ABC123'', ''XYZ789'']),
                  (O_TRANS, [''30''])] None None) =
   Return ERR_NO_INFO (bank_state [(O_NUM, []), (O_PASS, []), (O_TRANS, [])] (Some 0) (Some 1))"
  by (simp add: engine_defs option_codes patterns char_defs doe_def roe_def)

subsection \<open>The pattern of the names\<close>

text \<open>
  C8. \<^verbatim>\<open>R_NAME\<close> does not match the alphabetic name \<open>Bob\<close>, and the change of the first
  name of account A0001 to it, with the right number and password, ends the run with
  \<^verbatim>\<open>ERR_NO_INFO\<close> and leaves the name as it was.
\<close>

theorem first_name_Bob:
  "\<not> regex_match ''Bob'' R_NAME \<and>
   action O_CHANGE_F
     (bank_state [(O_CHANGE_F, [''Bob'']), (O_NUM, [''A0001'']), (O_PASS, [''ABC123''])]
        None None) =
   Return ERR_NO_INFO (bank_state [(O_CHANGE_F, []), (O_NUM, []), (O_PASS, [])] (Some 0) None)"
  by (simp add: engine_defs option_codes patterns char_defs doe_def roe_def)

subsection \<open>The order of the actions\<close>
























subsection \<open>Credentials that match no account\<close>









text \<open>
  C9. A run whose only action is a change of the area, with no number and no password:
  the round reads \<^verbatim>\<open>acc2\<close>, which has no value yet. When it happens to hold the address
  of the second account, the run changes that account and exits with 0; when it holds
  an address of no account, the run has no defined result.
\<close>

theorem first_action_without_account:
  "exit_and_file ''bank.db''
     (main [''./bankacct'', ''/Dbank.db'', ''/A702''] bank None (Some 1)) =
   Some (0, Some (lines
     [''Doe'', ''Jane'', ''J'', ''123456789'', ''555'', ''5551234'', ''100'', ''A0001'', ''ABC123'', '''',
      ''Roe'', ''Rick'', ''R'', ''987654321'', ''702'', ''5559876'', ''10'', ''A0002'', ''XYZ789'', ''''])) \<and>
   main [''./bankacct'', ''/Dbank.db'', ''/A702''] bank None (Some 2) = None"
proof
  show "exit_and_file ''bank.db''
     (main [''./bankacct'', ''/Dbank.db'', ''/A702''] bank None (Some 1)) =
   Some (0, Some (lines
     [''Doe'', ''Jane'', ''J'', ''123456789'', ''555'', ''5551234'', ''100'', ''A0001'', ''ABC123'', '''',
      ''Roe'', ''Rick'', ''R'', ''987654321'', ''702'', ''5559876'', ''10'', ''A0002'', ''XYZ789'', '''']))"
  proof (rule main_bank [OF args_area_only])
    show "run_actions (bank_state [(O_CHANGE_AREA, [''702'']), (O_DATA, [''bank.db''])]
            None (Some 1)) =
          Return 0 \<lparr>args = [(O_CHANGE_AREA, []), (O_DATA, [''bank.db''])],
            people = [doe, roe\<lparr>area := 702\<rparr>], acc = Some 1, acc2 = Some 1, world = bank\<rparr>"
      by (simp add: engine_defs option_codes patterns char_defs atoi_def)
  qed (simp_all add: option_codes text_roe_702)
  have "run_actions (bank_state [(O_CHANGE_AREA, [''702'']), (O_DATA, [''bank.db''])]
          None (Some 2)) = Undefined"
    by (simp add: engine_defs option_codes patterns char_defs atoi_def)
  then show "main [''./bankacct'', ''/Dbank.db'', ''/A702''] bank None (Some 2) = None"
    by (simp add: main_def args_area_only parseArgs_def option_codes load_bank sort_bank
        bank_state_def del: sort_key_simps)
qed

subsection \<open>Writing the database back\<close>



text \<open>
  C3. The scenario of the specification: the two accounts with balances 100.00 and 10.00,
  and a transfer of 30 from A0001 to A0002 with the right numbers and passwords. The run
  exits with \<^verbatim>\<open>ERR_NO_INFO\<close> and writes both balances back unchanged.
\<close>

theorem transfer_scenario:
  "exit_and_file ''bank.db''
     (main [''./bankacct'', ''/Dbank.db'', ''/NA0001'', ''/PABC123'', ''/NA0002'', ''/PXYZ789'',
            ''/T30''] bank None None) =
   Some (ERR_NO_INFO, Some (lines
     [''Doe'', ''Jane'', ''J'', ''123456789'', ''555'', ''5551234'', ''100'', ''A0001'', ''ABC123'', '''',
      ''Roe'', ''Rick'', ''R'', ''987654321'', ''555'', ''5559876'', ''10'', ''A0002'', ''XYZ789'', '''']))"
proof (rule main_bank)
  show "sortArgs [''./bankacct'', ''/Dbank.db'', ''/NA0001'', ''/PABC123'', ''/NA0002'',
          ''/PXYZ789'', ''/T30''] =
        [(O_DATA, [''bank.db'']), (O_NUM, [''A0001'', ''A0002'']),
         (O_PASS, [''ABC123'', ''XYZ789'']), (O_TRANS, [''30''])]"
    by (simp add: sortArgs_def option_codes)
  show "run_actions (bank_state [(O_DATA, [''bank.db'']), (O_NUM, [''A0001'', ''A0002'']),
         (O_PASS, [''ABC123'', ''XYZ789'']), (O_TRANS, [''30''])] None None) =
        Return ERR_NO_INFO (bank_state [(O_DATA, [''bank.db'']), (O_NUM, []), (O_PASS, []),
         (O_TRANS, [])] (Some 0) (Some 1))"
    by (simp add: engine_defs option_codes patterns char_defs doe_def roe_def)
qed (simp_all add: option_codes bank_state_def text_bank)

subsection \<open>Loading\<close>

text \<open>
  Every record read shortens the text, so the bound on the rounds of the loop of
  \<^verbatim>\<open>loadDatabase\<close> is never what ends it: any bound from the length of the text up
  gives the same result.
\<close>

lemma dropWhile_shorter: "length (dropWhile P xs) \<le> length xs"
  by (induction xs) auto

lemma dropWhile_strictly_shorter:
  "xs \<noteq> [] \<Longrightarrow> P (hd xs) \<Longrightarrow> length (dropWhile P xs) < length xs"
  using dropWhile_shorter [of P "tl xs"] by (cases xs) auto

lemma get_cstr_shorter: "get_cstr room s = Got t rest \<Longrightarrow> length rest < length s"
proof -
  let ?s1 = "dropWhile isspace s"
  assume g: "get_cstr room s = Got t rest"
  then have s1: "?s1 \<noteq> []" and rest: "rest = dropWhile (\<lambda>c. \<not> isspace c) ?s1"
    by (auto simp: get_cstr_def Let_def split: if_splits)
  from s1 have "\<not> isspace (hd ?s1)" by (rule hd_dropWhile)
  with s1 have "length rest < length ?s1"
    unfolding rest by (intro dropWhile_strictly_shorter) auto
  also have "length ?s1 \<le> length s" by (rule dropWhile_shorter)
  finally show ?thesis .
qed

lemma get_char_shorter: "get_char s = Got c rest \<Longrightarrow> length rest \<le> length s"
  using dropWhile_shorter [of isspace s]
  by (auto simp: get_char_def split: list.splits)

lemma get_uint_shorter: "get_uint s = Got v rest \<Longrightarrow> length rest \<le> length s"
proof -
  assume "get_uint s = Got v rest"
  then have "rest = dropWhile isdigit (dropWhile isspace s)"
    by (auto simp: get_uint_def Let_def split: if_splits)
  then show ?thesis
    using dropWhile_shorter [of isdigit "dropWhile isspace s"] dropWhile_shorter [of isspace s]
    by simp
qed

lemma tl_shorter: "length (tl xs) \<le> length xs"
  by simp

lemma get_double_shorter: "get_double s = Got v rest \<Longrightarrow> length rest \<le> length s"
proof -
  let ?s1 = "dropWhile isspace s"
  let ?s2 = "if ?s1 \<noteq> [] \<and> hd ?s1 = CHR ''-'' then tl ?s1 else ?s1"
  let ?s3 = "dropWhile isdigit ?s2"
  assume "get_double s = Got v rest"
  then have "rest = dropWhile isdigit (tl ?s3) \<or> rest = ?s3"
    by (auto simp: get_double_def Let_def split: if_splits)
  moreover have "length (dropWhile isdigit (tl ?s3)) \<le> length ?s3"
    using dropWhile_shorter [of isdigit "tl ?s3"] by simp
  moreover have "length ?s3 \<le> length ?s2" by (rule dropWhile_shorter)
  moreover have "length ?s2 \<le> length ?s1" by simp
  moreover have "length ?s1 \<le> length s" by (rule dropWhile_shorter)
  ultimately show ?thesis by auto
qed

lemma next_field_Got:
  "next_field g f = Got y rest \<Longrightarrow> \<exists>x mid. g = Got x mid \<and> f x mid = Got y rest"
  by (cases g) (simp_all add: next_field_def)

lemma read_person_shorter:
  assumes "read_person s = Got person rest"
  shows "length rest < length s"
proof -
  from assms obtain l s1 where 1: "get_cstr LAST_NAME_LENGTH s = Got l s1"
    and "next_field (get_cstr FIRST_NAME_LENGTH s1) (\<lambda>f s.
     next_field (get_char s) (\<lambda>m s.
     next_field (get_uint s) (\<lambda>so s.
     next_field (get_uint s) (\<lambda>ar s.
     next_field (get_uint s) (\<lambda>ph s.
     next_field (get_double s) (\<lambda>b s.
     next_field (get_cstr ACC_NUM_LENGTH s) (\<lambda>n s.
     next_field (get_cstr PASS_LENGTH s) (\<lambda>p s.
       Got \<lparr>first_name = f, last_name = l, middle = m, social = so, area = ar, phone = ph,
            balance = b, number = n, password = p,
            nameLength = of_nat (length f + length l + 4)\<rparr> s)))))))) = Got person rest"
    unfolding read_person_def by (blast dest: next_field_Got)
  then obtain f s2 m s3 so s4 ar s5 ph s6 b s7 n s8 p s9 where
    2: "get_cstr FIRST_NAME_LENGTH s1 = Got f s2" and 3: "get_char s2 = Got m s3" and
    4: "get_uint s3 = Got so s4" and 5: "get_uint s4 = Got ar s5" and
    6: "get_uint s5 = Got ph s6" and 7: "get_double s6 = Got b s7" and
    8: "get_cstr ACC_NUM_LENGTH s7 = Got n s8" and 9: "get_cstr PASS_LENGTH s8 = Got p s9" and
    r: "rest = s9"
    by (fastforce dest!: next_field_Got)
  from get_cstr_shorter [OF 1] get_cstr_shorter [OF 2] get_char_shorter [OF 3]
    get_uint_shorter [OF 4] get_uint_shorter [OF 5] get_uint_shorter [OF 6]
    get_double_shorter [OF 7] get_cstr_shorter [OF 8] get_cstr_shorter [OF 9] r
  show ?thesis by simp
qed

lemma load_loop_fuel:
  "length s \<le> n \<Longrightarrow> length s \<le> m \<Longrightarrow> load_loop n s loaded = load_loop m s loaded"
proof (induction n arbitrary: m s loaded)
  case 0
  then have "s = []" by simp
  then have "read_person s = AtEof"
    by (simp add: read_person_def next_field_def get_cstr_def)
  then show ?case by (simp add: load_loop.simps [of _ s])
next
  case (Suc n)
  show ?case
  proof (cases "read_person s")
    case (Got person rest)
    from read_person_shorter [OF Got] Suc.prems obtain j where
      m: "m = Suc j" and j: "length rest \<le> j" and n: "length rest \<le> n"
      by (cases m) auto
    from Suc.IH [OF n j] Got m show ?thesis
      by (simp add: load_loop.simps [of _ s])
  next
    case AtEof
    then show ?thesis by (simp add: load_loop.simps [of _ s])
  next
    case Bad
    then show ?thesis by (simp add: load_loop.simps [of _ s])
  qed
qed























text \<open>
  The white space after the last token matters. When the file ends with the last token
  of a record, reading that token reaches the end of the file, and the loop of
  \<^verbatim>\<open>loadDatabase\<close> ends without the record: here nothing is loaded, and a run with no
  action writes the file back empty.
\<close>

lemma load_cut_short: "loadDatabase [] ''bank.db'' cut_short = Some (Some [])"
  by (simp add: loadDatabase_def ifstream_def cut_short_def)
     (simp add: char_defs stream_defs load_loop.simps)

theorem last_record_lost:
  "loadDatabase [] ''bank.db'' cut_short = Some (Some []) \<and>
   exit_and_file ''bank.db'' (main [''./bankacct'', ''/Dbank.db''] cut_short None None) =
     Some (0, Some [])"
proof
  show "loadDatabase [] ''bank.db'' cut_short = Some (Some [])" by (rule load_cut_short)
  have "run_actions \<lparr>args = [(O_DATA, [''bank.db''])], people = [], acc = None, acc2 = None,
          world = cut_short\<rparr> =
        Return 0 \<lparr>args = [(O_DATA, [''bank.db''])], people = [], acc = None, acc2 = None,
          world = cut_short\<rparr>"
    by (simp add: engine_defs option_codes)
  then show "exit_and_file ''bank.db'' (main [''./bankacct'', ''/Dbank.db''] cut_short None None) =
     Some (0, Some [])"
    by (simp add: main_def sortArgs_def parseArgs_def option_codes load_cut_short
        WriteOnShutdown_def database_text_def ofstream_def exit_and_file_def)
qed

end
